theory Spec2Isabelle
  imports Complex_Main
begin

section \<open>Python values used by the fraud-detection service\<close>

text \<open>
  The service computes with Python \<open>int\<close> (unbounded, modelled as \<^typ>\<open>int\<close>) and with
  Python \<open>float\<close>. Floats are modelled as \<^typ>\<open>real\<close>: every product, quotient and
  comparison below is the exact one, so rounding error of IEEE doubles, NaN and the
  infinities are outside the model. Console output (\<open>print\<close>) is not modelled.
\<close>

text \<open>\<open>int(x)\<close> on a float: truncation toward zero.\<close>

definition py_int :: "real \<Rightarrow> int" where
  "py_int x = (if 0 \<le> x then \<lfloor>x\<rfloor> else - \<lfloor>- x\<rfloor>)"

text \<open>\<open>round(x)\<close> on a float with one argument: the nearest integer, ties to the even one.\<close>

definition py_round :: "real \<Rightarrow> int" where
  "py_round x =
     (let f = \<lfloor>x\<rfloor>; d = x - of_int f
      in if d < 1 / 2 then f
         else if 1 / 2 < d then f + 1
         else if even f then f else f + 1)"

text \<open>
  \<open>np.expm1\<close>: \<open>exp x - 1\<close>. The exact value is always above \<open>-1\<close>, but the value numpy
  returns is not: once \<open>exp x\<close> is below half a unit in the last place of \<open>1.0\<close>
  (\<open>2\<^sup>-\<^sup>5\<^sup>4\<close> for doubles, that is \<open>x < -37.43\<close>; earlier for single precision) the result
  is exactly \<open>-1.0\<close>. That saturation is the only way \<open>int(np.expm1(x))\<close> can be negative,
  so it is written out here for \<open>x \<le> -38\<close>.
\<close>

definition np_expm1 :: "real \<Rightarrow> real" where
  "np_expm1 x = (if x \<le> - 38 then - 1 else exp x - 1)"

text \<open>\<open>math.log1p\<close> on a non-negative integer.\<close>

definition math_log1p :: "real \<Rightarrow> real" where
  "math_log1p x = ln (1 + x)"

subsection \<open>Formatting integers\<close>

definition digit_char :: "nat \<Rightarrow> char" where
  "digit_char d = ''0123456789'' ! d"

text \<open>The decimal digits of a natural number, most significant first.\<close>

fun nat_digits :: "nat \<Rightarrow> string" where
  "nat_digits n =
     (if n < 10 then [digit_char n] else nat_digits (n div 10) @ [digit_char (n mod 10)])"

declare nat_digits.simps [simp del]

text \<open>\<open>str(i)\<close>, which is what \<open>{i}\<close> in an f-string prints for an \<open>int\<close>.\<close>

definition py_str_int :: "int \<Rightarrow> string" where
  "py_str_int i = (if i < 0 then ''-'' @ nat_digits (nat (- i)) else nat_digits (nat i))"

text \<open>
  Grouping by thousands, on the digits least significant first: a comma after every
  third digit that has a digit after it.
\<close>

fun group3 :: "string \<Rightarrow> string" where
  "group3 (a # b # c # d # ds) = a # b # c # CHR '','' # group3 (d # ds)"
| "group3 ds = ds"

text \<open>\<open>{i:,}\<close> in an f-string, for an \<open>int\<close>.\<close>

definition py_format_comma :: "int \<Rightarrow> string" where
  "py_format_comma i =
     (if i < 0 then ''-'' else '''') @ rev (group3 (rev (nat_digits (nat \<bar>i\<bar>))))"

section \<open>Configuration (config.py)\<close>


definition SUSPICIOUS_RATIO_THRESHOLD :: real where
  "SUSPICIOUS_RATIO_THRESHOLD = 70 / 100"

definition MARKET_DIFF_THRESHOLD :: int where
  "MARKET_DIFF_THRESHOLD = - 30000"

section \<open>Explanations (FraudDetectionService.generate_reasons)\<close>

text \<open>
  The three messages. The texts are Bosnian; letters outside ASCII are given by their
  UTF-8 bytes (z with caron is C5 BE, c with caron is C4 8D, s with caron is C5 A1).
\<close>

definition ratio_reason :: "int \<Rightarrow> int \<Rightarrow> string" where
  "ratio_reason percentage expected_km =
     ''Kilometra'' @ [CHR 0xC5, CHR 0xBE] @ ''a je sumnjiva: Samo '' @ py_str_int percentage
     @ ''% od o'' @ [CHR 0xC4, CHR 0x8D] @ ''ekivanih '' @ py_format_comma expected_km
     @ '' km.''"

definition market_reason :: "int \<Rightarrow> string" where
  "market_reason market_km_diff =
     ''Automobil ima '' @ py_format_comma \<bar>market_km_diff\<bar>
     @ '' km manje od sli'' @ [CHR 0xC4, CHR 0x8D] @ ''nih oglasa na tr''
     @ [CHR 0xC5, CHR 0xBE] @ ''i'' @ [CHR 0xC5, CHR 0xA1] @ ''tu.''"

definition generic_reason :: string where
  "generic_reason =
     ''Otkrivena slo'' @ [CHR 0xC5, CHR 0xBE]
     @ ''ena anomalija od strane AI (kombinacija cijene, starosti i specifikacija).''"

text \<open>
  \<open>generate_reasons\<close> appends to a list that starts empty; \<open>reasons1\<close> and \<open>reasons2\<close>
  are the list after the first and the second \<open>if\<close>. The market difference is the
  integer \<open>check_fraud\<close> passes.
\<close>

definition generate_reasons :: "real \<Rightarrow> int \<Rightarrow> int \<Rightarrow> bool \<Rightarrow> string list" where
  "generate_reasons smart_ratio market_km_diff expected_km is_suspicious =
     (let reasons = [];
          reasons1 =
            (if smart_ratio < SUSPICIOUS_RATIO_THRESHOLD
             then (let percentage = py_int (smart_ratio * 100)
                   in reasons @ [ratio_reason percentage expected_km])
             else reasons);
          reasons2 =
            (if market_km_diff < MARKET_DIFF_THRESHOLD
             then reasons1 @ [market_reason market_km_diff]
             else reasons1)
      in if reasons2 = [] \<and> is_suspicious then reasons2 @ [generic_reason] else reasons2)"

section \<open>Request and response types (models.py)\<close>

record CarInput =
  car_make :: string
  model :: string
  year :: int
  reported_km :: int
  fuelType :: string
  gearbox :: string
  horsepower :: int
  price :: int
  offerType :: string


text \<open>
  What the scoring operation can raise: the \<open>ValueError\<close> of an unready registry or of
  \<open>math.log1p\<close> outside its domain, the validation error of the response type (with the
  names of the fields that failed), an \<open>AttributeError\<close> for a method call on \<open>None\<close>, and
  whatever an artifact raises.
\<close>

datatype error =
    ValueError string
  | ValidationError "string list"
  | AttributeError string
  | ArtifactError string

record FraudCheckResponse =
  fraud_score :: int
  is_suspicious :: bool
  expected_km :: int
  reasons :: "string list"

text \<open>
  Constructing a \<open>FraudCheckResponse\<close> validates the fields: \<open>fraud_score\<close> has
  \<open>ge=0, le=100\<close>, \<open>expected_km\<close> has \<open>ge=0\<close>. A field out of range raises.
\<close>

definition FraudCheckResponse_init ::
  "int \<Rightarrow> bool \<Rightarrow> int \<Rightarrow> string list \<Rightarrow> error + FraudCheckResponse" where
  "FraudCheckResponse_init score suspicious km rs =
     (let errors =
            (if 0 \<le> score \<and> score \<le> 100 then [] else [''fraud_score''])
            @ (if 0 \<le> km then [] else [''expected_km''])
      in if errors = []
         then Inr \<lparr>fraud_score = score, is_suspicious = suspicious,
                   expected_km = km, reasons = rs\<rparr>
         else Inl (ValidationError errors))"

section \<open>The model registry (model_loader.py)\<close>

text \<open>
  A one-row \<open>DataFrame\<close>: the columns in order, each with its value. An artifact is an
  opaque callable on such a row (\<open>predict\<close>, or column 1 of \<open>predict_proba\<close>) that
  returns a float or raises.
\<close>

datatype cell = IntCell int | FloatCell real | StrCell string

type_synonym row = "(string \<times> cell) list"

type_synonym artifact = "row \<Rightarrow> error + real"

record ModelManager =
  regressor_model :: "artifact option"
  classifier_model :: "artifact option"
  fraud_threshold :: real









definition are_models_loaded :: "ModelManager \<Rightarrow> bool" where
  "are_models_loaded self = (regressor_model self \<noteq> None \<and> classifier_model self \<noteq> None)"

definition get_regressor :: "ModelManager \<Rightarrow> artifact option" where
  "get_regressor self = regressor_model self"

definition get_classifier :: "ModelManager \<Rightarrow> artifact option" where
  "get_classifier self = classifier_model self"

definition get_threshold :: "ModelManager \<Rightarrow> real" where
  "get_threshold self = fraud_threshold self"

section \<open>The scoring pipeline (prediction_service.py)\<close>

text \<open>The regression input, built the same way in both places that call the regressor.\<close>

definition regression_input :: "int \<Rightarrow> CarInput \<Rightarrow> row" where
  "regression_input current_year car =
     (let age = max 1 (current_year - year car);
          age_squared = age ^ 2
      in [(''year'', IntCell (year car)),
          (''price'', IntCell (price car)),
          (''horsepower'', IntCell (horsepower car)),
          (''make'', StrCell (car_make car)),
          (''model'', StrCell (model car)),
          (''fuelType'', StrCell (fuelType car)),
          (''gearbox'', StrCell (gearbox car)),
          (''offerType'', StrCell (offerType car)),
          (''age'', IntCell age),
          (''age_squared'', IntCell age_squared)])"

text \<open>
  \<open>calculate_fraud_features\<close>. \<open>math.log1p\<close> raises \<open>ValueError\<close> at \<open>-1\<close> and
  below, which a validated car never reaches.
\<close>

definition calculate_fraud_features ::
  "int \<Rightarrow> CarInput \<Rightarrow> int \<Rightarrow> real \<Rightarrow> error + row" where
  "calculate_fraud_features current_year car km predicted_log =
     (let age = max 1 (current_year - year car);
          smart_ratio = real_of_int (reported_km car) / real_of_int (max 1 km);
          market_km_diff = reported_km car - km
      in if reported_km car \<le> - 1 then Inl (ValueError ''math domain error'')
         else
           (let log_reported = math_log1p (real_of_int (reported_km car));
                log_diff = log_reported - predicted_log
            in Inr [(''smart_ratio'', FloatCell smart_ratio),
                    (''age'', IntCell age),
                    (''market_km_diff'', IntCell market_km_diff),
                    (''log_diff'', FloatCell log_diff)]))"

text \<open>
  \<open>check_fraud\<close>, with the registry and the current year as arguments. The steps are
  the source's, in its order; a raise ends the computation with \<open>Inl\<close>.
\<close>

definition check_fraud :: "ModelManager \<Rightarrow> int \<Rightarrow> CarInput \<Rightarrow> error + FraudCheckResponse" where
  "check_fraud model_manager current_year car =
     (if \<not> are_models_loaded model_manager
      then Inl (ValueError ''Models are not loaded. Service is not ready.'')
      else
        (case get_regressor model_manager of
           None \<Rightarrow> Inl (AttributeError ''predict'')
         | Some reg_model \<Rightarrow>
        (case get_classifier model_manager of
           None \<Rightarrow> Inl (AttributeError ''predict_proba'')
         | Some class_model \<Rightarrow>
        (let thresh = get_threshold model_manager;
             age = max 1 (current_year - year car);
             reg_input = regression_input current_year car
         in case reg_model reg_input of
              Inl e \<Rightarrow> Inl e
            | Inr predicted_log \<Rightarrow>
        (let km = py_int (np_expm1 predicted_log);
             smart_ratio = real_of_int (reported_km car) / real_of_int (max 1 km);
             market_km_diff = reported_km car - km
         in if reported_km car \<le> - 1 then Inl (ValueError ''math domain error'')
            else
        (let log_reported = math_log1p (real_of_int (reported_km car));
             log_diff = log_reported - predicted_log;
             class_input =
               [(''smart_ratio'', FloatCell smart_ratio),
                (''age'', IntCell age),
                (''market_km_diff'', IntCell market_km_diff),
                (''log_diff'', FloatCell log_diff)]
         in case class_model class_input of
              Inl e \<Rightarrow> Inl e
            | Inr fraud_prob \<Rightarrow>
        (let score = py_round (fraud_prob * 100);
             suspicious = (thresh \<le> fraud_prob);
             rs = generate_reasons smart_ratio market_km_diff km suspicious
         in FraudCheckResponse_init score suspicious km rs)))))))"

text \<open>
  The two artifacts are opaque, so the statements below name what they answer for a
  car: the registry holds both, the regressor answers \<open>predicted_log\<close> on the car's
  regression input, and the classifier answers \<open>prob\<close> on the features computed from it.
\<close>

definition artifacts_answer :: "ModelManager \<Rightarrow> int \<Rightarrow> CarInput \<Rightarrow> real \<Rightarrow> real \<Rightarrow> bool" where
  "artifacts_answer model_manager current_year car predicted_log prob =
     (case regressor_model model_manager of
        None \<Rightarrow> False
      | Some reg_model \<Rightarrow>
     (case classifier_model model_manager of
        None \<Rightarrow> False
      | Some class_model \<Rightarrow>
          reg_model (regression_input current_year car) = Inr predicted_log
          \<and> (case calculate_fraud_features current_year car
                      (py_int (np_expm1 predicted_log)) predicted_log of
                Inl e \<Rightarrow> False
              | Inr features \<Rightarrow> class_model features = Inr prob)))"

section \<open>Concrete inputs\<close>

text \<open>The example request of \<open>CarInput\<close>'s schema.\<close>

definition example_car :: CarInput where
  "example_car =
     \<lparr>car_make = ''Volkswagen'', model = ''Golf'', year = 2019, reported_km = 92000,
      fuelType = ''Diesel'', gearbox = ''Manual'', horsepower = 115, price = 14500,
      offerType = ''Used''\<rparr>"

text \<open>An artifact that answers the same value on every row.\<close>

definition const_artifact :: "real \<Rightarrow> artifact" where
  "const_artifact v = (\<lambda>features. Inr v)"

text \<open>
  A ready registry whose regressor predicts the log-space value \<open>predicted_log\<close> and
  whose classifier answers the probability \<open>prob\<close>, with threshold \<open>thr\<close>.
\<close>

definition example_registry :: "real \<Rightarrow> real \<Rightarrow> real \<Rightarrow> ModelManager" where
  "example_registry predicted_log prob thr =
     \<lparr>regressor_model = Some (const_artifact predicted_log),
      classifier_model = Some (const_artifact prob),
      fraud_threshold = thr\<rparr>"




section \<open>Auxiliary facts\<close>

subsection \<open>Rounding and truncation\<close>

lemma py_round_of_int: "py_round (of_int n) = n"
  by (simp add: py_round_def Let_def)

lemma py_round_values:
  "py_round (numeral k) = numeral k" "py_round (- numeral k) = - numeral k"
  using py_round_of_int [of "numeral k"] py_round_of_int [of "- numeral k"] by simp_all



lemma py_int_np_expm1_small:
  assumes "- 38 < x" and "x < 0"
  shows "py_int (np_expm1 x) = 0"
proof -
  have e: "0 < exp x" "exp x < 1" using assms by simp_all
  then have "\<lfloor>1 - exp x\<rfloor> = 0" by (simp add: floor_eq_iff)
  then show ?thesis using assms e by (simp add: np_expm1_def py_int_def)
qed

lemma py_int_np_expm1_values:
  "py_int (np_expm1 0) = 0" "py_int (np_expm1 (- 50)) = - 1"
  "py_int (np_expm1 (- (1 / 2))) = 0"
  using py_int_np_expm1_small [of "- (1 / 2)"] by (simp_all add: np_expm1_def py_int_def)

subsection \<open>The response constructor and the pipeline\<close>

lemma FraudCheckResponse_init_Inr:
  "FraudCheckResponse_init s b k rs = Inr r \<longleftrightarrow>
     (0 \<le> s \<and> s \<le> 100 \<and> 0 \<le> k
      \<and> r = \<lparr>fraud_score = s, is_suspicious = b, expected_km = k, reasons = rs\<rparr>)"
  by (auto simp add: FraudCheckResponse_init_def Let_def)

text \<open>
  With both artifacts answering, \<open>check_fraud\<close> is the response constructor applied to
  the values it computed: nothing between the computation and the constructor changes
  them.
\<close>

lemma check_fraud_loaded:
  assumes "artifacts_answer mm cy car pl p"
  shows "check_fraud mm cy car =
           FraudCheckResponse_init (py_round (p * 100)) (get_threshold mm \<le> p)
             (py_int (np_expm1 pl))
             (generate_reasons
                (real_of_int (reported_km car) / real_of_int (max 1 (py_int (np_expm1 pl))))
                (reported_km car - py_int (np_expm1 pl)) (py_int (np_expm1 pl))
                (get_threshold mm \<le> p))"
  using assms
  by (auto simp add: artifacts_answer_def check_fraud_def calculate_fraud_features_def
      are_models_loaded_def get_regressor_def get_classifier_def Let_def
      split: if_splits option.splits)

subsection \<open>The concrete inputs\<close>


lemma example_artifacts_answer:
  "artifacts_answer (example_registry pl p t) 2026 example_car pl p"
  by (simp add: artifacts_answer_def example_registry_def const_artifact_def
      calculate_fraud_features_def example_car_def Let_def)

lemma example_threshold: "get_threshold (example_registry pl p t) = t"
  by (simp add: get_threshold_def example_registry_def)

lemma example_reasons:
  "generate_reasons (real_of_int (reported_km example_car)) (reported_km example_car) 0 s
     = (if s then [generic_reason] else [])"
  by (simp add: generate_reasons_def SUSPICIOUS_RATIO_THRESHOLD_def MARKET_DIFF_THRESHOLD_def
      example_car_def)

section \<open>The fraud score and the decision (check_fraud)\<close>







text \<open>
  C5. For every probability \<open>p\<close> and threshold \<open>t\<close>, the result of \<open>check_fraud\<close> has
  \<open>is_suspicious\<close> true exactly when \<open>p \<ge> t\<close>; a probability equal to the threshold is
  flagged.
\<close>

theorem is_suspicious_iff_threshold:
  assumes "artifacts_answer mm cy car pl p" and "check_fraud mm cy car = Inr r"
  shows "is_suspicious r = (get_threshold mm \<le> p)
         \<and> (p = get_threshold mm \<longrightarrow> is_suspicious r)"
  using assms by (auto simp add: check_fraud_loaded [OF assms(1)] FraudCheckResponse_init_Inr)

text \<open>Probability and threshold both \<open>0.5\<close>: the example car is flagged.\<close>

theorem is_suspicious_iff_threshold_witness:
  "artifacts_answer (example_registry 0 (1 / 2) (1 / 2)) 2026 example_car 0 (1 / 2)
   \<and> check_fraud (example_registry 0 (1 / 2) (1 / 2)) 2026 example_car
       = Inr \<lparr>fraud_score = 50, is_suspicious = True, expected_km = 0,
              reasons = [generic_reason]\<rparr>
   \<and> get_threshold (example_registry 0 (1 / 2) (1 / 2)) = 1 / 2
   \<and> is_suspicious \<lparr>fraud_score = 50, is_suspicious = True, expected_km = 0,
              reasons = [generic_reason]\<rparr>"
proof -
  have res: "check_fraud (example_registry 0 (1 / 2) (1 / 2)) 2026 example_car
       = Inr \<lparr>fraud_score = 50, is_suspicious = True, expected_km = 0,
              reasons = [generic_reason]\<rparr>"
    by (simp add: check_fraud_loaded [OF example_artifacts_answer] py_round_values
      py_int_np_expm1_values FraudCheckResponse_init_def example_reasons example_threshold)
  from is_suspicious_iff_threshold [OF example_artifacts_answer res] res
  show ?thesis by (simp add: example_artifacts_answer example_threshold)
qed



section \<open>The explanations (generate_reasons)\<close>

lemma ratio_reason_not_generic: "ratio_reason q k \<noteq> generic_reason"
  by (simp add: ratio_reason_def generic_reason_def)

lemma market_reason_not_generic: "market_reason d \<noteq> generic_reason"
  by (simp add: market_reason_def generic_reason_def)

lemma ratio_reason_not_market: "ratio_reason q k \<noteq> market_reason d"
  by (simp add: ratio_reason_def market_reason_def)

lemma thresholds: "SUSPICIOUS_RATIO_THRESHOLD = 7 / 10" "MARKET_DIFF_THRESHOLD = - 30000"
  by (simp_all add: SUSPICIOUS_RATIO_THRESHOLD_def MARKET_DIFF_THRESHOLD_def)




text \<open>
  C4. For every input to \<open>generate_reasons\<close> with \<open>is_suspicious\<close> true, the list
  returned is non-empty; when neither the ratio rule (\<open>smart_ratio < 0.70\<close>) nor the
  market rule (\<open>market_km_diff < -30000\<close>) fires, it is the generic reason alone.
\<close>

theorem suspicious_is_explained:
  "generate_reasons sr md km True \<noteq> []
   \<and> (\<not> sr < 7 / 10 \<and> \<not> md < - 30000 \<longrightarrow> generate_reasons sr md km True = [generic_reason])"
  by (simp add: generate_reasons_def thresholds Let_def)

text \<open>92000 km reported against 95000 expected, flagged by the classifier.\<close>

theorem suspicious_is_explained_witness:
  "\<not> (92000 / 95000 :: real) < 7 / 10 \<and> \<not> (- 3000 :: int) < - 30000
   \<and> generate_reasons (92000 / 95000) (- 3000) 95000 True = [generic_reason]"
  using suspicious_is_explained [of "92000 / 95000" "- 3000" 95000] by simp

text \<open>
  C6. The rules of \<open>generate_reasons\<close> are evaluated in a fixed order and are not
  exclusive: the list is the ratio reason if its rule fires, then the market reason if
  its rule fires, then the generic reason if neither fired and the car is suspicious.
  For 40000 km reported against 150000 expected both fire, the ratio reason (26 percent
  of 150,000 km) first and the market reason (110,000 km less) second.
\<close>

theorem reasons_in_rule_order:
  "generate_reasons sr md km s =
     (if sr < 7 / 10 then [ratio_reason (py_int (sr * 100)) km] else [])
     @ (if md < - 30000 then [market_reason md] else [])
     @ (if s \<and> \<not> sr < 7 / 10 \<and> \<not> md < - 30000 then [generic_reason] else [])
   \<and> generate_reasons (40000 / real_of_int (max 1 150000)) (40000 - 150000) 150000 s =
       [''Kilometra'' @ [CHR 0xC5, CHR 0xBE] @ ''a je sumnjiva: Samo 26% od o''
          @ [CHR 0xC4, CHR 0x8D] @ ''ekivanih 150,000 km.'',
        ''Automobil ima 110,000 km manje od sli'' @ [CHR 0xC4, CHR 0x8D]
          @ ''nih oglasa na tr'' @ [CHR 0xC5, CHR 0xBE] @ ''i'' @ [CHR 0xC5, CHR 0xA1] @ ''tu.'']"
proof -
  have order: "generate_reasons sr md km s =
     (if sr < 7 / 10 then [ratio_reason (py_int (sr * 100)) km] else [])
     @ (if md < - 30000 then [market_reason md] else [])
     @ (if s \<and> \<not> sr < 7 / 10 \<and> \<not> md < - 30000 then [generic_reason] else [])"
    by (simp add: generate_reasons_def thresholds Let_def)
  have example: "generate_reasons (40000 / real_of_int (max 1 150000)) (40000 - 150000) 150000 s =
       [''Kilometra'' @ [CHR 0xC5, CHR 0xBE] @ ''a je sumnjiva: Samo 26% od o''
          @ [CHR 0xC4, CHR 0x8D] @ ''ekivanih 150,000 km.'',
        ''Automobil ima 110,000 km manje od sli'' @ [CHR 0xC4, CHR 0x8D]
          @ ''nih oglasa na tr'' @ [CHR 0xC5, CHR 0xBE] @ ''i'' @ [CHR 0xC5, CHR 0xA1] @ ''tu.'']"
    by (simp add: generate_reasons_def thresholds py_int_def Let_def ratio_reason_def
        market_reason_def py_str_int_def py_format_comma_def nat_digits.simps digit_char_def)
  from order example show ?thesis by (rule conjI)
qed

text \<open>
  C9. Every list returned by \<open>generate_reasons\<close> has at most two elements, and the
  generic reason, when present, is the only element.
\<close>

theorem reasons_at_most_two:
  "length (generate_reasons sr md km s) \<le> 2
   \<and> (generic_reason \<in> set (generate_reasons sr md km s)
        \<longrightarrow> generate_reasons sr md km s = [generic_reason])"
  by (simp add: generate_reasons_def thresholds Let_def ratio_reason_not_generic
      market_reason_not_generic ratio_reason_not_generic [symmetric]
      market_reason_not_generic [symmetric])

text \<open>A list holding the generic reason alone, and a list of two reasons.\<close>

theorem reasons_at_most_two_witness:
  "generic_reason \<in> set (generate_reasons 1 0 100 True)
   \<and> generate_reasons 1 0 100 True = [generic_reason]
   \<and> length (generate_reasons (1 / 4) (- 110000) 150000 True) = 2"
proof -
  have mem: "generic_reason \<in> set (generate_reasons 1 0 100 True)"
    by (simp add: generate_reasons_def thresholds Let_def)
  have two: "length (generate_reasons (1 / 4) (- 110000) 150000 True) = 2"
    by (simp add: generate_reasons_def thresholds Let_def)
  from reasons_at_most_two [of 1 0 100 True] mem two show ?thesis by simp
qed

section \<open>The features (calculate_fraud_features)\<close>




section \<open>Loading the artifacts (load_models)\<close>







end
